theory Spec2Isabelle
  imports Main "HOL-Library.Sublist"
begin

section \<open>The \<open>jx create gke-service-account\<close> command\<close>

text \<open>
  A shallow embedding of \<^verbatim>\<open>pkg/jx/cmd/create_gke_service_account.go\<close>: the method
  \<^verbatim>\<open>Run\<close> of \<^verbatim>\<open>CreateGkeServiceAccountOptions\<close>, the validator closure it hands to the
  name prompt, and \<^verbatim>\<open>getGoogleProjectId\<close>.

  The command talks to the outside through calls whose code is elsewhere: the shell-out
  \<^verbatim>\<open>runCommandVerbose\<close>, the prompts of the \<^verbatim>\<open>survey\<close> library, \<^verbatim>\<open>gke.GetGoogleProjects\<close>,
  \<^verbatim>\<open>gke.GetOrCreateServiceAccount\<close>, \<^verbatim>\<open>util.HomeDir\<close>, \<^verbatim>\<open>util.ColorInfo\<close> and \<^verbatim>\<open>log.Infof\<close>.
  What those calls answer is a parameter of the model (the record \<open>world\<close>); that they
  were made, in which order and with which arguments, is recorded in a trace carried by
  the state.
\<close>

subsection \<open>Data\<close>

text \<open>
  A Go \<^verbatim>\<open>error\<close> value: one built here with \<^verbatim>\<open>errors.New\<close>, or one handed back by a
  collaborator, which the command never inspects.
\<close>

datatype error = ErrorsNew string | External string

text \<open>The struct \<^verbatim>\<open>CreateGkeServiceAccountFlags\<close>. Go strings are byte strings, and so is \<open>string\<close>.\<close>

record CreateGkeServiceAccountFlags =
  Name :: string
  Project :: string
  SkipLogin :: bool

text \<open>
  A value of type \<^verbatim>\<open>interface{}\<close> as the validator sees it: a string, or a value of any
  other dynamic type.
\<close>

datatype iface = IString string | IOther

text \<open>One entry of the trace for each call that leaves the command.\<close>

datatype event =
  EvRunCommandVerbose string "string list"
| EvAskInput string
| EvAskConfirm string bool
| EvAskSelect string "string list" string
| EvGetGoogleProjects
| EvGetOrCreateServiceAccount string string string
| EvLogInfof string

text \<open>
  The answers of the collaborators during one invocation.
  \<^item> \<open>loginResult\<close>: what \<^verbatim>\<open>runCommandVerbose("gcloud", "auth", "login", "--brief")\<close> returns
    (\<open>None\<close> is \<^verbatim>\<open>nil\<close>);
  \<^item> \<open>inputTyped\<close>: the lines the user types at the text prompt, in order, and
    \<open>inputAbort\<close>: the error of the prompt once the user interrupts it or the input ends;
  \<^item> \<open>projectsResult\<close>: what \<^verbatim>\<open>gke.GetGoogleProjects()\<close> returns;
  \<^item> \<open>confirmResult\<close>, \<open>selectResult\<close>: the outcome of the yes/no prompt and of the
    selection prompt (an error, or the answer written through the pointer);
  \<^item> \<open>accountResult\<close>: \<^verbatim>\<open>gke.GetOrCreateServiceAccount\<close> as a function of its three arguments;
  \<^item> \<open>homeDir\<close>: \<^verbatim>\<open>util.HomeDir()\<close>; \<open>colorInfo\<close>: \<^verbatim>\<open>util.ColorInfo\<close>.
\<close>

record world =
  loginResult :: "error option"
  inputTyped :: "string list"
  inputAbort :: error
  projectsResult :: "error + string list"
  confirmResult :: "error + bool"
  selectResult :: "error + string"
  accountResult :: "string \<Rightarrow> string \<Rightarrow> string \<Rightarrow> error + string"
  homeDir :: string
  colorInfo :: "string \<Rightarrow> string"

text \<open>The receiver \<^verbatim>\<open>o\<close>: its \<^verbatim>\<open>Flags\<close> field, and the calls made so far (oldest first).\<close>

record state =
  Flags :: CreateGkeServiceAccountFlags
  trace :: "event list"

definition emit :: "event \<Rightarrow> state \<Rightarrow> state" where
  "emit e s = s\<lparr>trace := trace s @ [e]\<rparr>"

subsection \<open>The name prompt\<close>

text \<open>
  The closure passed to \<^verbatim>\<open>survey.AskOne\<close> in \<^verbatim>\<open>Run\<close>:
  \<^verbatim>\<open>if str, ok := val.(string); !ok || len(str) < 6 { return errors.New(...) }; return nil\<close>.
\<close>

definition nameValidator :: "iface \<Rightarrow> error option" where
  "nameValidator val =
     (case val of
        IString str \<Rightarrow>
          if length str < 6
          then Some (ErrorsNew ''Service Account name must be longer than 5 characters'')
          else None
      | IOther \<Rightarrow> Some (ErrorsNew ''Service Account name must be longer than 5 characters''))"

text \<open>
  \<^verbatim>\<open>survey.AskOne\<close> on a text prompt with a validator: each typed line is given to the
  validator, the first accepted line is the answer, a rejected line makes the prompt ask
  again, and the prompt's own error ends the call. A session in which the user types
  rejected lines for ever does not return; every session that returns is a finite list of
  lines, followed by the abort if none was accepted.
\<close>

fun askOneInput :: "(iface \<Rightarrow> error option) \<Rightarrow> string list \<Rightarrow> error \<Rightarrow> error + string" where
  "askOneInput validate [] abort = Inl abort"
| "askOneInput validate (ans # later) abort =
     (case validate (IString ans) of
        None \<Rightarrow> Inr ans
      | Some invalid \<Rightarrow> askOneInput validate later abort)"

subsection \<open>The project resolver\<close>

text \<open>
  \<^verbatim>\<open>getGoogleProjectId\<close>. An early \<^verbatim>\<open>return "", err\<close> is the value \<open>Inl err\<close>; the three
  branches on \<^verbatim>\<open>len(existingProjects)\<close> either return early (\<open>Inl\<close>) or fall through
  with the local variable \<^verbatim>\<open>projectId\<close> (\<open>Inr\<close>), which the test \<^verbatim>\<open>projectId == ""\<close>
  after them inspects. \<^verbatim>\<open>projectId\<close> starts as the empty string, and \<^verbatim>\<open>flag\<close> holds the
  answer of the confirmation prompt.
\<close>

definition getGoogleProjectId :: "world \<Rightarrow> state \<Rightarrow> (error + string) \<times> state" where
  "getGoogleProjectId w s =
     (let s1 = emit EvGetGoogleProjects s in
      case projectsResult w of
        Inl err \<Rightarrow> (Inl err, s1)
      | Inr existingProjects \<Rightarrow>
          (case
             (if length existingProjects = 0 then
                (let s2 = emit (EvAskConfirm
                                  ''No existing Google Projects exist, create one now?'' True) s1 in
                 case confirmResult w of
                   Inl err \<Rightarrow> (Inl err, s2)
                 | Inr flag \<Rightarrow>
                     if \<not> flag then
                       (Inl (ErrorsNew
                          ''no google project to create cluster in, please manual create one and rerun this wizard''),
                        s2)
                     else if flag then
                       (Inl (ErrorsNew
                          ''auto creating projects not yet implemented, please manually create one and rerun the wizard''),
                        s2)
                     else (Inr [], s2))
              else if length existingProjects = 1 then
                (let projectId = existingProjects ! 0 in
                 (Inr projectId,
                  emit (EvLogInfof (''Using the only Google Cloud Project '' @ colorInfo w projectId
                                      @ '' to create the cluster'' @ [CHR 0x0A])) s1))
              else
                (let s2 = emit (EvAskSelect ''Google Cloud Project:'' existingProjects
                                  ''Select a Google Project to create the cluster in'') s1 in
                 case selectResult w of
                   Inl err \<Rightarrow> (Inl err, s2)
                 | Inr projectId \<Rightarrow> (Inr projectId, s2)))
           of
             (Inl err, s') \<Rightarrow> (Inl err, s')
           | (Inr projectId, s') \<Rightarrow>
               if projectId = [] then
                 (Inl (ErrorsNew
                    ''no Google Cloud Project to create cluster in, please manual create one and rerun this wizard''),
                  s')
               else (Inr projectId, s')))"

subsection \<open>The command\<close>

text \<open>
  \<^verbatim>\<open>Run\<close> returns a single \<^verbatim>\<open>error\<close> (\<open>None\<close> is \<^verbatim>\<open>nil\<close>). Its body is four blocks in
  sequence, each of which may return early with an error; they are given here one by one,
  and \<open>Run\<close> chains them. The empty string \<^verbatim>\<open>""\<close> is the empty list \<open>[]\<close>.
\<close>

text \<open>The login: \<^verbatim>\<open>if !o.Flags.SkipLogin { err := o.runCommandVerbose(...); if err != nil { return err } }\<close>.\<close>

definition loginEvent :: event where
  "loginEvent = EvRunCommandVerbose ''gcloud'' [''auth'', ''login'', ''--brief'']"

definition Run_login :: "world \<Rightarrow> state \<Rightarrow> error option \<times> state" where
  "Run_login w s =
     (if \<not> SkipLogin (Flags s) then (loginResult w, emit loginEvent s) else (None, s))"

text \<open>
  The name: \<^verbatim>\<open>if o.Flags.Name == "" { err := survey.AskOne(prompt, &o.Flags.Name, validator); ... }\<close>.
  The accepted answer is written into \<^verbatim>\<open>o.Flags.Name\<close>.
\<close>

definition Run_name :: "world \<Rightarrow> state \<Rightarrow> error option \<times> state" where
  "Run_name w s =
     (if Name (Flags s) = [] then
        (let s1 = emit (EvAskInput ''Name for the service account'') s in
         case askOneInput nameValidator (inputTyped w) (inputAbort w) of
           Inl err \<Rightarrow> (Some err, s1)
         | Inr ans \<Rightarrow> (None, s1\<lparr>Flags := (Flags s1)\<lparr>Name := ans\<rparr>\<rparr>))
      else (None, s))"

text \<open>
  The project: \<^verbatim>\<open>if o.Flags.Project == "" { projectId, err := o.getGoogleProjectId(); ...; o.Flags.Project = projectId }\<close>.
\<close>

definition Run_project :: "world \<Rightarrow> state \<Rightarrow> error option \<times> state" where
  "Run_project w s =
     (if Project (Flags s) = [] then
        (case getGoogleProjectId w s of
           (Inl err, s1) \<Rightarrow> (Some err, s1)
         | (Inr projectId, s1) \<Rightarrow> (None, s1\<lparr>Flags := (Flags s1)\<lparr>Project := projectId\<rparr>\<rparr>))
      else (None, s))"

text \<open>
  The account:
  \<^verbatim>\<open>path, err := gke.GetOrCreateServiceAccount(o.Flags.Name, o.Flags.Project, util.HomeDir())\<close>,
  then the log line and \<^verbatim>\<open>return nil\<close>.
\<close>

definition Run_account :: "world \<Rightarrow> state \<Rightarrow> error option \<times> state" where
  "Run_account w s =
     (let s1 = emit (EvGetOrCreateServiceAccount (Name (Flags s)) (Project (Flags s)) (homeDir w)) s in
      case accountResult w (Name (Flags s)) (Project (Flags s)) (homeDir w) of
        Inl err \<Rightarrow> (Some err, s1)
      | Inr path \<Rightarrow>
          (None,
           emit (EvLogInfof (''Created service account key '' @ colorInfo w path @ [CHR 0x0A])) s1))"

definition Run :: "world \<Rightarrow> state \<Rightarrow> error option \<times> state" where
  "Run w s =
     (case Run_login w s of
        (Some err, s1) \<Rightarrow> (Some err, s1)
      | (None, s1) \<Rightarrow>
          (case Run_name w s1 of
             (Some err, s2) \<Rightarrow> (Some err, s2)
           | (None, s2) \<Rightarrow>
               (case Run_project w s2 of
                  (Some err, s3) \<Rightarrow> (Some err, s3)
                | (None, s3) \<Rightarrow> Run_account w s3)))"

text \<open>The receiver as the command line leaves it: the parsed flags, no call made yet.\<close>

definition start :: "CreateGkeServiceAccountFlags \<Rightarrow> state" where
  "start flags = \<lparr>Flags = flags, trace = []\<rparr>"

subsection \<open>Reading the trace\<close>

text \<open>The login call, and the calls of the project resolver (the listing and its two prompts).\<close>

fun loginCall :: "event \<Rightarrow> bool" where
  "loginCall (EvRunCommandVerbose c args) = True"
| "loginCall _ = False"

fun projectCall :: "event \<Rightarrow> bool" where
  "projectCall EvGetGoogleProjects = True"
| "projectCall (EvAskConfirm m d) = True"
| "projectCall (EvAskSelect m opts h) = True"
| "projectCall _ = False"

subsection \<open>A sample invocation\<close>

text \<open>
  One concrete set of collaborators, used to run the model: login succeeds, the user types
  \<^verbatim>\<open>abc\<close> and then \<^verbatim>\<open>svc-account\<close>, there is one project \<^verbatim>\<open>only-proj\<close>, and the key file is
  written under the home directory. \<open>otherAccount\<close> is a second provider that answers
  with another path.
\<close>

definition sampleAccount :: "string \<Rightarrow> string \<Rightarrow> string \<Rightarrow> error + string" where
  "sampleAccount name project home = Inr (home @ ''/.jx/'' @ name @ ''.key.json'')"

definition otherAccount :: "string \<Rightarrow> string \<Rightarrow> string \<Rightarrow> error + string" where
  "otherAccount name project home = Inr ''/tmp/key.json''"

definition sampleWorld :: world where
  "sampleWorld =
     \<lparr>loginResult = None, inputTyped = [''abc'', ''svc-account''],
      inputAbort = External ''interrupt'', projectsResult = Inr [''only-proj''],
      confirmResult = Inr True, selectResult = Inr ''b'', accountResult = sampleAccount,
      homeDir = ''/home/jx'', colorInfo = id\<rparr>"

definition sampleFlags :: CreateGkeServiceAccountFlags where
  "sampleFlags = \<lparr>Name = [], Project = [], SkipLogin = True\<rparr>"

lemmas Run_defs = Run_def Run_login_def Run_name_def Run_project_def Run_account_def
  getGoogleProjectId_def emit_def start_def Let_def loginEvent_def

lemmas sample_defs = sampleWorld_def sampleFlags_def sampleAccount_def otherAccount_def
  nameValidator_def

subsection \<open>What each block leaves unchanged\<close>

lemma length_cases:
  obtains (none) "ps = []" | (one) p where "ps = [p]"
  | (many) "ps \<noteq> []" "length ps \<noteq> Suc 0" "1 < length ps"
  by (cases ps rule: list.exhaust; cases "tl ps"; auto)

lemma getGoogleProjectId_frame:
  "Flags (snd (getGoogleProjectId w s)) = Flags s \<and>
   filter loginCall (trace (snd (getGoogleProjectId w s))) = filter loginCall (trace s) \<and>
   prefix (trace s) (trace (snd (getGoogleProjectId w s)))"
proof (cases "projectsResult w")
  case (Inl err)
  then show ?thesis by (simp add: getGoogleProjectId_def emit_def Let_def)
next
  case (Inr ps)
  show ?thesis
  proof (cases ps rule: length_cases)
    case none
    with Inr show ?thesis
      by (cases "confirmResult w") (simp_all add: getGoogleProjectId_def emit_def Let_def)
  next
    case one
    with Inr show ?thesis
      by (simp add: getGoogleProjectId_def emit_def Let_def)
  next
    case many
    with Inr show ?thesis
      by (cases "selectResult w") (simp_all add: getGoogleProjectId_def emit_def Let_def)
  qed
qed

text \<open>The resolver reads nothing of the receiver: its result is the same from any state.\<close>

lemma getGoogleProjectId_result_indep:
  "fst (getGoogleProjectId w s) = fst (getGoogleProjectId w s')"
proof (cases "projectsResult w")
  case (Inl err)
  then show ?thesis by (simp add: getGoogleProjectId_def emit_def Let_def)
next
  case (Inr ps)
  show ?thesis
  proof (cases ps rule: length_cases)
    case none
    with Inr show ?thesis
      by (cases "confirmResult w") (simp_all add: getGoogleProjectId_def emit_def Let_def)
  next
    case one
    with Inr show ?thesis
      by (simp add: getGoogleProjectId_def emit_def Let_def)
  next
    case many
    with Inr show ?thesis
      by (cases "selectResult w") (simp_all add: getGoogleProjectId_def emit_def Let_def)
  qed
qed

lemma Run_login_frame:
  "Flags (snd (Run_login w s)) = Flags s \<and>
   filter projectCall (trace (snd (Run_login w s))) = filter projectCall (trace s) \<and>
   prefix (trace s) (trace (snd (Run_login w s)))"
  by (simp add: Run_login_def emit_def loginEvent_def)

lemma Run_name_frame:
  "Project (Flags (snd (Run_name w s))) = Project (Flags s) \<and>
   filter loginCall (trace (snd (Run_name w s))) = filter loginCall (trace s) \<and>
   filter projectCall (trace (snd (Run_name w s))) = filter projectCall (trace s) \<and>
   prefix (trace s) (trace (snd (Run_name w s)))"
  by (simp add: Run_name_def emit_def Let_def split: sum.splits)

lemma Run_project_frame:
  "Name (Flags (snd (Run_project w s))) = Name (Flags s) \<and>
   filter loginCall (trace (snd (Run_project w s))) = filter loginCall (trace s) \<and>
   prefix (trace s) (trace (snd (Run_project w s)))"
  using getGoogleProjectId_frame [of w s]
  by (cases "getGoogleProjectId w s") (simp add: Run_project_def split: sum.splits)

lemma Run_project_given: "Project (Flags s) \<noteq> [] \<Longrightarrow> Run_project w s = (None, s)"
  by (simp add: Run_project_def)

lemma Run_project_resolved:
  "Project (Flags s) = [] \<Longrightarrow>
   Project (Flags (snd (Run_project w s))) = [] \<or>
   fst (getGoogleProjectId w s) = Inr (Project (Flags (snd (Run_project w s))))"
  using getGoogleProjectId_frame [of w s]
  by (cases "getGoogleProjectId w s") (simp add: Run_project_def split: sum.splits)

lemma Run_account_frame:
  "Flags (snd (Run_account w s)) = Flags s \<and>
   filter loginCall (trace (snd (Run_account w s))) = filter loginCall (trace s) \<and>
   filter projectCall (trace (snd (Run_account w s))) = filter projectCall (trace s) \<and>
   prefix (trace s) (trace (snd (Run_account w s)))"
  by (simp add: Run_account_def emit_def Let_def split: sum.splits)

text \<open>The four ways through \<open>Run\<close>: an error in one of the first three blocks, or the account block.\<close>

lemma Run_cases:
  obtains
    (login_err) err s1 where "Run_login w s = (Some err, s1)" "Run w s = (Some err, s1)"
  | (name_err) err s1 s2 where "Run_login w s = (None, s1)" "Run_name w s1 = (Some err, s2)"
      "Run w s = (Some err, s2)"
  | (project_err) err s1 s2 s3 where "Run_login w s = (None, s1)" "Run_name w s1 = (None, s2)"
      "Run_project w s2 = (Some err, s3)" "Run w s = (Some err, s3)"
  | (account) s1 s2 s3 where "Run_login w s = (None, s1)" "Run_name w s1 = (None, s2)"
      "Run_project w s2 = (None, s3)" "Run w s = Run_account w s3"
proof (cases "Run_login w s")
  case login: (Pair r1 s1)
  show ?thesis
  proof (cases r1)
    case (Some err)
    with login show ?thesis by (intro login_err [of err s1]) (simp_all add: Run_def)
  next
    case None
    note r1 = this
    show ?thesis
    proof (cases "Run_name w s1")
      case name: (Pair r2 s2)
      show ?thesis
      proof (cases r2)
        case (Some err)
        with login r1 name show ?thesis
          by (intro name_err [of s1 err s2]) (simp_all add: Run_def)
      next
        case None
        note r2 = this
        show ?thesis
        proof (cases "Run_project w s2")
          case project: (Pair r3 s3)
          show ?thesis
          proof (cases r3)
            case (Some err)
            with login r1 name r2 project show ?thesis
              by (intro project_err [of s1 s2 err s3]) (simp_all add: Run_def)
          next
            case None
            with login r1 name r2 project show ?thesis
              by (intro account [of s1 s2 s3]) (simp_all add: Run_def)
          qed
        qed
      qed
    qed
  qed
qed

lemma Run_after_login:
  "filter loginCall (trace (snd (Run w s))) = filter loginCall (trace (snd (Run_login w s))) \<and>
   prefix (trace (snd (Run_login w s))) (trace (snd (Run w s)))"
proof (cases rule: Run_cases [of w s])
  case (login_err err s1)
  then show ?thesis by simp
next
  case (name_err err s1 s2)
  with Run_name_frame [of w s1] show ?thesis by simp
next
  case (project_err err s1 s2 s3)
  with Run_name_frame [of w s1] Run_project_frame [of w s2] show ?thesis
    by (auto intro: prefix_order.trans)
next
  case (account s1 s2 s3)
  with Run_name_frame [of w s1] Run_project_frame [of w s2] Run_account_frame [of w s3]
  show ?thesis
    by (auto intro: prefix_order.trans)
qed

lemma Run_project_flag_given:
  assumes "Project (Flags s) \<noteq> []"
  shows "Project (Flags (snd (Run w s))) = Project (Flags s) \<and>
         filter projectCall (trace (snd (Run w s))) = filter projectCall (trace s)"
proof (cases rule: Run_cases [of w s])
  case (login_err err s1)
  with Run_login_frame [of w s] show ?thesis by simp
next
  case (name_err err s1 s2)
  with Run_login_frame [of w s] Run_name_frame [of w s1] show ?thesis by simp
next
  case (project_err err s1 s2 s3)
  with Run_login_frame [of w s] Run_name_frame [of w s1] assms
  have "Project (Flags s2) \<noteq> []" by simp
  with project_err show ?thesis by (simp add: Run_project_given)
next
  case (account s1 s2 s3)
  with Run_login_frame [of w s] Run_name_frame [of w s1] assms
  have s2: "Project (Flags s2) = Project (Flags s)"
    "filter projectCall (trace s2) = filter projectCall (trace s)" by simp_all
  with assms account have "s3 = s2" by (simp add: Run_project_given)
  with s2 account Run_account_frame [of w s3] show ?thesis by simp
qed

lemma Run_project_flag_resolved:
  assumes "Project (Flags s) = []"
  shows "Project (Flags (snd (Run w s))) = [] \<or>
         fst (getGoogleProjectId w s0) = Inr (Project (Flags (snd (Run w s))))"
proof (cases rule: Run_cases [of w s])
  case (login_err err s1)
  with Run_login_frame [of w s] assms show ?thesis by simp
next
  case (name_err err s1 s2)
  with Run_login_frame [of w s] Run_name_frame [of w s1] assms show ?thesis by simp
next
  case (project_err err s1 s2 s3)
  with Run_login_frame [of w s] Run_name_frame [of w s1] assms
  have "Project (Flags s2) = []" by simp
  from Run_project_resolved [OF this, of w] project_err
  show ?thesis using getGoogleProjectId_result_indep [of w s0 s2] by simp
next
  case (account s1 s2 s3)
  with Run_login_frame [of w s] Run_name_frame [of w s1] assms
  have "Project (Flags s2) = []" by simp
  from Run_project_resolved [OF this, of w] account Run_account_frame [of w s3]
  show ?thesis using getGoogleProjectId_result_indep [of w s0 s2] by simp
qed

text \<open>With an empty \<^verbatim>\<open>Project\<close> flag, a run that gets past the login and the name reaches the resolver.\<close>

lemma getGoogleProjectId_listing:
  "EvGetGoogleProjects \<in> set (trace (snd (getGoogleProjectId w s)))"
proof (cases "projectsResult w")
  case (Inl err)
  then show ?thesis by (simp add: getGoogleProjectId_def emit_def Let_def)
next
  case (Inr ps)
  show ?thesis
  proof (cases ps rule: length_cases)
    case none
    with Inr show ?thesis
      by (cases "confirmResult w") (simp_all add: getGoogleProjectId_def emit_def Let_def)
  next
    case one
    with Inr show ?thesis
      by (simp add: getGoogleProjectId_def emit_def Let_def)
  next
    case many
    with Inr show ?thesis
      by (cases "selectResult w") (simp_all add: getGoogleProjectId_def emit_def Let_def)
  qed
qed

lemma Run_login_passes:
  "SkipLogin (Flags s) \<or> loginResult w = None \<Longrightarrow> fst (Run_login w s) = None"
  by (auto simp: Run_login_def)

lemma Run_name_passes:
  "Name (Flags s) \<noteq> [] \<or> (\<exists>ans. askOneInput nameValidator (inputTyped w) (inputAbort w) = Inr ans)
   \<Longrightarrow> fst (Run_name w s) = None"
  by (auto simp: Run_name_def Let_def)

lemma Run_project_asked:
  assumes "Project (Flags s) = []"
  shows "EvGetGoogleProjects \<in> set (trace (snd (Run_project w s))) \<and>
         (\<forall>err. fst (getGoogleProjectId w s) = Inl err \<longrightarrow>
            fst (Run_project w s) = Some err \<and> Project (Flags (snd (Run_project w s))) = []) \<and>
         (\<forall>pid. fst (getGoogleProjectId w s) = Inr pid \<longrightarrow>
            fst (Run_project w s) = None \<and> Project (Flags (snd (Run_project w s))) = pid)"
  using assms getGoogleProjectId_frame [of w s] getGoogleProjectId_listing [of w s]
  by (cases "getGoogleProjectId w s") (auto simp: Run_project_def split: sum.splits)

lemma Run_account_call:
  "EvGetOrCreateServiceAccount (Name (Flags s)) (Project (Flags s)) (homeDir w)
     \<in> set (trace (snd (Run_account w s)))"
  by (simp add: Run_account_def emit_def Let_def split: sum.splits)

lemma Run_project_flag_asked:
  assumes empty: "Project (Flags s) = []"
    and login: "SkipLogin (Flags s) \<or> loginResult w = None"
    and name: "Name (Flags s) \<noteq> [] \<or>
               (\<exists>ans. askOneInput nameValidator (inputTyped w) (inputAbort w) = Inr ans)"
  shows "EvGetGoogleProjects \<in> set (trace (snd (Run w s))) \<and>
         (\<forall>err. fst (getGoogleProjectId w s0) = Inl err \<longrightarrow>
            fst (Run w s) = Some err \<and> Project (Flags (snd (Run w s))) = []) \<and>
         (\<forall>pid. fst (getGoogleProjectId w s0) = Inr pid \<longrightarrow>
            Project (Flags (snd (Run w s))) = pid \<and>
            EvGetOrCreateServiceAccount (Name (Flags (snd (Run w s)))) pid (homeDir w)
              \<in> set (trace (snd (Run w s))))"
proof (cases rule: Run_cases [of w s])
  case (login_err err s1)
  with Run_login_passes [OF login] show ?thesis by simp
next
  case (name_err err s1 s2)
  with Run_login_frame [of w s] have "Flags s1 = Flags s" by simp
  with name have "fst (Run_name w s1) = None" by (intro Run_name_passes) simp
  with name_err show ?thesis by simp
next
  case (project_err err s1 s2 s3)
  with Run_login_frame [of w s] Run_name_frame [of w s1] empty
  have "Project (Flags s2) = []" by simp
  from Run_project_asked [OF this, of w] project_err
  show ?thesis using getGoogleProjectId_result_indep [of w s0 s2] by auto
next
  case (account s1 s2 s3)
  with Run_login_frame [of w s] Run_name_frame [of w s1] empty
  have "Project (Flags s2) = []" by simp
  from Run_project_asked [OF this, of w] account
  have s3: "EvGetGoogleProjects \<in> set (trace s3)"
    "\<forall>err. fst (getGoogleProjectId w s0) \<noteq> Inl err"
    "\<forall>pid. fst (getGoogleProjectId w s0) = Inr pid \<longrightarrow> Project (Flags s3) = pid"
    using getGoogleProjectId_result_indep [of w s0 s2] by auto
  from Run_account_frame [of w s3] have "set (trace s3) \<subseteq> set (trace (snd (Run_account w s3)))"
    by (simp add: set_mono_prefix)
  with s3 account Run_account_frame [of w s3] Run_account_call [of s3 w]
  show ?thesis by auto
qed

subsection \<open>The validator and the name handed to the provider\<close>

text \<open>
  Claim C1. The validator of the service-account name prompt rejects every candidate name
  shorter than 6 bytes (with the error "Service Account name must be longer than 5
  characters") and accepts every candidate name of 6 bytes or more.
\<close>

theorem nameValidator_length:
  "(length name < 6 \<longrightarrow>
      nameValidator (IString name) =
        Some (ErrorsNew ''Service Account name must be longer than 5 characters'')) \<and>
   (6 \<le> length name \<longrightarrow> nameValidator (IString name) = None)"
  by (simp add: nameValidator_def)

theorem nameValidator_length_witness:
  "length ''abc'' < 6 \<and> nameValidator (IString ''abc'') \<noteq> None \<and>
   6 \<le> length ''abcdef'' \<and> nameValidator (IString ''abcdef'') = None"
  using nameValidator_length [of "''abc''"] nameValidator_length [of "''abcdef''"]
  by simp

text \<open>
  A name that comes from the prompt has passed the validator: when the \<^verbatim>\<open>Name\<close> flag is
  empty and the first three blocks succeed, the name the account block hands to
  \<^verbatim>\<open>gke.GetOrCreateServiceAccount\<close> has 6 bytes or more.
\<close>

lemma askOneInput_accepted:
  "askOneInput nameValidator typed abort = Inr ans \<Longrightarrow> 6 \<le> length ans"
  by (induction typed) (auto simp: nameValidator_def split: if_splits)

lemma Run_name_prompted:
  "Name (Flags s) = [] \<Longrightarrow> Run_name w s = (None, s') \<Longrightarrow> 6 \<le> length (Name (Flags s'))"
  by (auto simp: Run_name_def emit_def Let_def split: sum.splits dest: askOneInput_accepted)

lemma Run_prompted_name:
  assumes "Name (Flags s) = []" and "Run_login w s = (None, s1)"
    and "Run_name w s1 = (None, s2)" and "Run_project w s2 = (None, s3)"
  shows "6 \<le> length (Name (Flags s3))"
proof -
  from assms(1,2) Run_login_frame [of w s] have "Name (Flags s1) = []" by simp
  from this assms(3) have "6 \<le> length (Name (Flags s2))" by (rule Run_name_prompted)
  with assms(4) Run_project_frame [of w s2] show ?thesis by simp
qed

text \<open>
  Claim C2 says that the name passed to \<^verbatim>\<open>gke.GetOrCreateServiceAccount\<close> always has 6 bytes
  or more, also when it comes from the \<^verbatim>\<open>--name\<close> flag. The length test is in the prompt's
  validator only, and the prompt is skipped when the flag is set: with the flags
  \<^verbatim>\<open>--name abc --project my-gke-project --skip-login\<close> the command calls
  \<^verbatim>\<open>GetOrCreateServiceAccount("abc", "my-gke-project", home)\<close> and succeeds.
\<close>

theorem Run_flag_name_unchecked:
  "Run sampleWorld (start \<lparr>Name = ''abc'', Project = ''my-gke-project'', SkipLogin = True\<rparr>) =
     (None,
      \<lparr>Flags = \<lparr>Name = ''abc'', Project = ''my-gke-project'', SkipLogin = True\<rparr>,
       trace = [EvGetOrCreateServiceAccount ''abc'' ''my-gke-project'' ''/home/jx'',
                EvLogInfof (''Created service account key /home/jx/.jx/abc.key.json'' @ [CHR 0x0A])]\<rparr>) \<and>
   length ''abc'' < 6"
  by (simp add: Run_defs sample_defs)

subsection \<open>The result of the command\<close>

text \<open>
  Claim C3 says that \<^verbatim>\<open>Run\<close> returns the credential key path. It does not: \<^verbatim>\<open>Run\<close> returns an
  \<^verbatim>\<open>error\<close> and nothing else. Two invocations that differ only in the path the provider
  answers (\<^verbatim>\<open>/home/jx/.jx/svc-account.key.json\<close> and \<^verbatim>\<open>/tmp/key.json\<close>) both succeed and
  return the same value, \<^verbatim>\<open>nil\<close>.
\<close>

theorem Run_result_without_path:
  "fst (Run sampleWorld (start sampleFlags)) = None \<and>
   fst (Run (sampleWorld\<lparr>accountResult := otherAccount\<rparr>) (start sampleFlags)) = None \<and>
   sampleAccount ''svc-account'' ''only-proj'' ''/home/jx'' = Inr ''/home/jx/.jx/svc-account.key.json'' \<and>
   otherAccount ''svc-account'' ''only-proj'' ''/home/jx'' = Inr ''/tmp/key.json''"
  by (simp add: Run_defs sample_defs)

text \<open>
  Claim C3, amended. \<^verbatim>\<open>Run\<close> returns only an error. When it returns \<^verbatim>\<open>nil\<close>, the call
  \<^verbatim>\<open>gke.GetOrCreateServiceAccount(o.Flags.Name, o.Flags.Project, util.HomeDir())\<close> has
  returned a path without error, and the last two calls of the run are that call and the
  log line "Created service account key " followed by \<^verbatim>\<open>util.ColorInfo(path)\<close> and a newline:
  the path is reported through the log, not through the result.
\<close>

theorem Run_success_logs_path:
  assumes "fst (Run w (start f)) = None"
  shows "\<exists>path tr.
     accountResult w (Name (Flags (snd (Run w (start f))))) (Project (Flags (snd (Run w (start f)))))
       (homeDir w) = Inr path \<and>
     trace (snd (Run w (start f))) =
       tr @ [EvGetOrCreateServiceAccount (Name (Flags (snd (Run w (start f)))))
               (Project (Flags (snd (Run w (start f))))) (homeDir w),
             EvLogInfof (''Created service account key '' @ colorInfo w path @ [CHR 0x0A])]"
proof (cases rule: Run_cases [of w "start f"])
  case (login_err err s1)
  with assms show ?thesis by simp
next
  case (name_err err s1 s2)
  with assms show ?thesis by simp
next
  case (project_err err s1 s2 s3)
  with assms show ?thesis by simp
next
  case (account s1 s2 s3)
  with assms have ok: "fst (Run_account w s3) = None" by simp
  then obtain path where
    path: "accountResult w (Name (Flags s3)) (Project (Flags s3)) (homeDir w) = Inr path"
    by (cases "accountResult w (Name (Flags s3)) (Project (Flags s3)) (homeDir w)")
       (simp_all add: Run_account_def Let_def)
  then have "Run_account w s3 =
      (None, s3\<lparr>trace := trace s3 @
         [EvGetOrCreateServiceAccount (Name (Flags s3)) (Project (Flags s3)) (homeDir w),
          EvLogInfof (''Created service account key '' @ colorInfo w path @ [CHR 0x0A])]\<rparr>)"
    by (simp add: Run_account_def emit_def Let_def)
  with account path show ?thesis by simp
qed

theorem Run_success_logs_path_witness:
  "fst (Run sampleWorld (start sampleFlags)) = None \<and>
   (\<exists>path tr.
     accountResult sampleWorld (Name (Flags (snd (Run sampleWorld (start sampleFlags)))))
       (Project (Flags (snd (Run sampleWorld (start sampleFlags))))) (homeDir sampleWorld) = Inr path \<and>
     trace (snd (Run sampleWorld (start sampleFlags))) =
       tr @ [EvGetOrCreateServiceAccount (Name (Flags (snd (Run sampleWorld (start sampleFlags)))))
               (Project (Flags (snd (Run sampleWorld (start sampleFlags))))) (homeDir sampleWorld),
             EvLogInfof (''Created service account key '' @ colorInfo sampleWorld path @ [CHR 0x0A])])"
proof -
  have ok: "fst (Run sampleWorld (start sampleFlags)) = None"
    by (simp add: Run_defs sample_defs)
  from ok Run_success_logs_path [OF ok] show ?thesis by (rule conjI)
qed

subsection \<open>The project resolver, case by case\<close>

text \<open>
  Claim C4. When the listing returns exactly one project \<open>p\<close> (a project identifier, so
  not the empty string), the resolver returns \<open>p\<close> without error, and the only calls it
  makes are the listing and the log line naming \<open>p\<close>: no confirmation and no selection
  prompt is shown.
\<close>

theorem getGoogleProjectId_single:
  "projectsResult w = Inr [p] \<Longrightarrow> p \<noteq> [] \<Longrightarrow>
   getGoogleProjectId w s =
     (Inr p,
      s\<lparr>trace := trace s @
         [EvGetGoogleProjects,
          EvLogInfof (''Using the only Google Cloud Project '' @ colorInfo w p
                        @ '' to create the cluster'' @ [CHR 0x0A])]\<rparr>)"
  by (simp add: getGoogleProjectId_def emit_def)

theorem getGoogleProjectId_single_witness:
  "projectsResult (sampleWorld\<lparr>projectsResult := Inr [''proj-1'']\<rparr>) = Inr [''proj-1''] \<and>
   ''proj-1'' \<noteq> [] \<and>
   getGoogleProjectId (sampleWorld\<lparr>projectsResult := Inr [''proj-1'']\<rparr>) (start sampleFlags) =
     (Inr ''proj-1'',
      \<lparr>Flags = sampleFlags,
       trace = [EvGetGoogleProjects,
                EvLogInfof (''Using the only Google Cloud Project proj-1 to create the cluster'' @ [CHR 0x0A])]\<rparr>)"
  using getGoogleProjectId_single
    [of "sampleWorld\<lparr>projectsResult := Inr [''proj-1'']\<rparr>" "''proj-1''" "start sampleFlags"]
  by (simp add: sampleWorld_def start_def)




text \<open>
  Claim C6. When the listing returns no project and the confirmation prompt is answered
  "no", the resolver returns the error "no google project to create cluster in, please
  manual create one and rerun this wizard", after the listing and the prompt and no other
  call; it returns no project identifier.
\<close>

theorem getGoogleProjectId_none_no:
  "projectsResult w = Inr [] \<Longrightarrow> confirmResult w = Inr False \<Longrightarrow>
   getGoogleProjectId w s =
     (Inl (ErrorsNew ''no google project to create cluster in, please manual create one and rerun this wizard''),
      s\<lparr>trace := trace s @
         [EvGetGoogleProjects,
          EvAskConfirm ''No existing Google Projects exist, create one now?'' True]\<rparr>) \<and>
   (\<forall>p. fst (getGoogleProjectId w s) \<noteq> Inr p)"
  by (simp add: getGoogleProjectId_def emit_def)

theorem getGoogleProjectId_none_no_witness:
  "projectsResult (sampleWorld\<lparr>projectsResult := Inr [], confirmResult := Inr False\<rparr>) = Inr [] \<and>
   confirmResult (sampleWorld\<lparr>projectsResult := Inr [], confirmResult := Inr False\<rparr>) = Inr False \<and>
   fst (getGoogleProjectId (sampleWorld\<lparr>projectsResult := Inr [], confirmResult := Inr False\<rparr>)
          (start sampleFlags)) =
     Inl (ErrorsNew ''no google project to create cluster in, please manual create one and rerun this wizard'')"
  using getGoogleProjectId_none_no
    [of "sampleWorld\<lparr>projectsResult := Inr [], confirmResult := Inr False\<rparr>" "start sampleFlags"]
  by (simp add: sampleWorld_def)

text \<open>
  Claim C7. When the listing returns no project and the confirmation prompt is answered
  "yes", the resolver returns the error "auto creating projects not yet implemented, please
  manually create one and rerun the wizard", after the listing and the prompt and no other
  call: no project is created and no project identifier is returned.
\<close>

theorem getGoogleProjectId_none_yes:
  "projectsResult w = Inr [] \<Longrightarrow> confirmResult w = Inr True \<Longrightarrow>
   getGoogleProjectId w s =
     (Inl (ErrorsNew ''auto creating projects not yet implemented, please manually create one and rerun the wizard''),
      s\<lparr>trace := trace s @
         [EvGetGoogleProjects,
          EvAskConfirm ''No existing Google Projects exist, create one now?'' True]\<rparr>) \<and>
   (\<forall>p. fst (getGoogleProjectId w s) \<noteq> Inr p)"
  by (simp add: getGoogleProjectId_def emit_def)

theorem getGoogleProjectId_none_yes_witness:
  "projectsResult (sampleWorld\<lparr>projectsResult := Inr []\<rparr>) = Inr [] \<and>
   confirmResult (sampleWorld\<lparr>projectsResult := Inr []\<rparr>) = Inr True \<and>
   fst (getGoogleProjectId (sampleWorld\<lparr>projectsResult := Inr []\<rparr>) (start sampleFlags)) =
     Inl (ErrorsNew ''auto creating projects not yet implemented, please manually create one and rerun the wizard'')"
  using getGoogleProjectId_none_yes [of "sampleWorld\<lparr>projectsResult := Inr []\<rparr>" "start sampleFlags"]
  by (simp add: sampleWorld_def)

text \<open>
  Claim C8. Whatever the listing and the prompts answer, the resolver never returns the
  empty string as a project identifier without error; in the two branches that can leave
  \<^verbatim>\<open>projectId\<close> empty (a single project that is the empty string, a selection that is the
  empty string) it returns the error "no Google Cloud Project to create cluster in, please
  manual create one and rerun this wizard".
\<close>

theorem getGoogleProjectId_nonempty:
  "fst (getGoogleProjectId w s) \<noteq> Inr [] \<and>
   (projectsResult w = Inr [[]] \<longrightarrow> fst (getGoogleProjectId w s) = Inl (ErrorsNew 
       ''no Google Cloud Project to create cluster in, please manual create one and rerun this wizard'')) \<and>
   (projectsResult w = Inr ps \<and> 1 < length ps \<and> selectResult w = Inr [] \<longrightarrow>
      fst (getGoogleProjectId w s) = Inl (ErrorsNew 
       ''no Google Cloud Project to create cluster in, please manual create one and rerun this wizard''))"
  by (simp add: getGoogleProjectId_def emit_def Let_def split: sum.splits prod.splits if_splits)

theorem getGoogleProjectId_nonempty_witness:
  "projectsResult (sampleWorld\<lparr>projectsResult := Inr [[]]\<rparr>) = Inr [[]] \<and>
   fst (getGoogleProjectId (sampleWorld\<lparr>projectsResult := Inr [[]]\<rparr>) (start sampleFlags)) =
     Inl (ErrorsNew 
       ''no Google Cloud Project to create cluster in, please manual create one and rerun this wizard'') \<and>
   projectsResult (sampleWorld\<lparr>projectsResult := Inr [[], ''b''], selectResult := Inr []\<rparr>) = Inr [[], ''b''] \<and>
   1 < length [[], ''b''] \<and>
   selectResult (sampleWorld\<lparr>projectsResult := Inr [[], ''b''], selectResult := Inr []\<rparr>) = Inr [] \<and>
   fst (getGoogleProjectId (sampleWorld\<lparr>projectsResult := Inr [[], ''b''], selectResult := Inr []\<rparr>)
          (start sampleFlags)) =
     Inl (ErrorsNew 
       ''no Google Cloud Project to create cluster in, please manual create one and rerun this wizard'')"
  using getGoogleProjectId_nonempty
      [of "sampleWorld\<lparr>projectsResult := Inr [[]]\<rparr>" "start sampleFlags" "[]"]
    getGoogleProjectId_nonempty
      [of "sampleWorld\<lparr>projectsResult := Inr [[], ''b''], selectResult := Inr []\<rparr>" "start sampleFlags"
          "[[], ''b'']"]
  by (simp add: sampleWorld_def)

subsection \<open>The order of the steps\<close>

text \<open>
  Claim C9. When \<^verbatim>\<open>SkipLogin\<close> is false, the first call of the run is the login
  \<^verbatim>\<open>runCommandVerbose("gcloud", "auth", "login", "--brief")\<close>, and when the login fails the
  run returns that very error with the login as its only call and the flags untouched.
  When \<^verbatim>\<open>SkipLogin\<close> is true the run makes no \<^verbatim>\<open>runCommandVerbose\<close> call at all.
\<close>

theorem Run_login_first:
  "(\<not> SkipLogin f \<longrightarrow>
      take 1 (trace (snd (Run w (start f)))) = [loginEvent] \<and>
      (\<forall>err. loginResult w = Some err \<longrightarrow>
         Run w (start f) = (Some err, \<lparr>Flags = f, trace = [loginEvent]\<rparr>))) \<and>
   (SkipLogin f \<longrightarrow> filter loginCall (trace (snd (Run w (start f)))) = [])"
proof (cases "SkipLogin f")
  case True
  then have "Run_login w (start f) = (None, start f)"
    by (simp add: Run_login_def start_def)
  with Run_after_login [of w "start f"] True show ?thesis
    by (simp add: start_def)
next
  case False
  then have login: "Run_login w (start f) = (loginResult w, \<lparr>Flags = f, trace = [loginEvent]\<rparr>)"
    by (simp add: Run_login_def start_def emit_def)
  with Run_after_login [of w "start f"]
  have "prefix [loginEvent] (trace (snd (Run w (start f))))" by simp
  then have first: "take 1 (trace (snd (Run w (start f)))) = [loginEvent]"
    by (auto simp: prefix_def)
  have "Run w (start f) = (Some err, \<lparr>Flags = f, trace = [loginEvent]\<rparr>)"
    if "loginResult w = Some err" for err
    using login that by (simp add: Run_def)
  with first False show ?thesis by simp
qed

theorem Run_login_first_witness:
  "\<not> SkipLogin (sampleFlags\<lparr>SkipLogin := False\<rparr>) \<and>
   loginResult (sampleWorld\<lparr>loginResult := Some (External ''exit status 1'')\<rparr>) =
     Some (External ''exit status 1'') \<and>
   Run (sampleWorld\<lparr>loginResult := Some (External ''exit status 1'')\<rparr>)
       (start (sampleFlags\<lparr>SkipLogin := False\<rparr>)) =
     (Some (External ''exit status 1''),
      \<lparr>Flags = sampleFlags\<lparr>SkipLogin := False\<rparr>, trace = [loginEvent]\<rparr>) \<and>
   SkipLogin sampleFlags \<and>
   filter loginCall (trace (snd (Run sampleWorld (start sampleFlags)))) = []"
  using Run_login_first
      [of "sampleFlags\<lparr>SkipLogin := False\<rparr>"
          "sampleWorld\<lparr>loginResult := Some (External ''exit status 1'')\<rparr>"]
    Run_login_first [of sampleFlags sampleWorld]
  by (simp add: sampleWorld_def sampleFlags_def)

text \<open>
  Claim C10. When the \<^verbatim>\<open>Project\<close> flag is not empty, the run makes no call of the project
  resolver (no listing, no confirmation prompt, no selection prompt) and ends with
  \<^verbatim>\<open>Flags.Project\<close> as it was given. When the flag is empty, \<^verbatim>\<open>Flags.Project\<close> at the end of the
  run is either still empty or the project the resolver returned; and if the run gets past
  the login and the name, the resolver is called: its error is the error of the run and
  \<^verbatim>\<open>Flags.Project\<close> stays empty, or its project is written into \<^verbatim>\<open>Flags.Project\<close> and is the
  project handed to \<^verbatim>\<open>gke.GetOrCreateServiceAccount\<close>.
\<close>

theorem Run_project_flag:
  "(Project f \<noteq> [] \<longrightarrow>
      Project (Flags (snd (Run w (start f)))) = Project f \<and>
      filter projectCall (trace (snd (Run w (start f)))) = []) \<and>
   (Project f = [] \<longrightarrow>
      Project (Flags (snd (Run w (start f)))) = [] \<or>
      fst (getGoogleProjectId w s0) = Inr (Project (Flags (snd (Run w (start f)))))) \<and>
   (Project f = [] \<and> (SkipLogin f \<or> loginResult w = None) \<and>
    (Name f \<noteq> [] \<or> (\<exists>ans. askOneInput nameValidator (inputTyped w) (inputAbort w) = Inr ans)) \<longrightarrow>
      EvGetGoogleProjects \<in> set (trace (snd (Run w (start f)))) \<and>
      (\<forall>err. fst (getGoogleProjectId w s0) = Inl err \<longrightarrow>
         fst (Run w (start f)) = Some err \<and> Project (Flags (snd (Run w (start f)))) = []) \<and>
      (\<forall>pid. fst (getGoogleProjectId w s0) = Inr pid \<longrightarrow>
         Project (Flags (snd (Run w (start f)))) = pid \<and>
         EvGetOrCreateServiceAccount (Name (Flags (snd (Run w (start f))))) pid (homeDir w)
           \<in> set (trace (snd (Run w (start f))))))"
  using Run_project_flag_given [of "start f" w] Run_project_flag_resolved [of "start f" w s0]
    Run_project_flag_asked [of "start f" w s0]
  by (simp add: start_def)

theorem Run_project_flag_witness:
  "Project (sampleFlags\<lparr>Project := ''my-gke-project''\<rparr>) \<noteq> [] \<and>
   Project (Flags (snd (Run sampleWorld (start (sampleFlags\<lparr>Project := ''my-gke-project''\<rparr>))))) =
     ''my-gke-project'' \<and>
   filter projectCall (trace (snd (Run sampleWorld (start (sampleFlags\<lparr>Project := ''my-gke-project''\<rparr>))))) = [] \<and>
   Project sampleFlags = [] \<and> SkipLogin sampleFlags \<and>
   askOneInput nameValidator (inputTyped sampleWorld) (inputAbort sampleWorld) = Inr ''svc-account'' \<and>
   fst (getGoogleProjectId sampleWorld (start sampleFlags)) = Inr ''only-proj'' \<and>
   EvGetGoogleProjects \<in> set (trace (snd (Run sampleWorld (start sampleFlags)))) \<and>
   Project (Flags (snd (Run sampleWorld (start sampleFlags)))) = ''only-proj'' \<and>
   EvGetOrCreateServiceAccount (Name (Flags (snd (Run sampleWorld (start sampleFlags))))) ''only-proj''
       (homeDir sampleWorld)
     \<in> set (trace (snd (Run sampleWorld (start sampleFlags)))) \<and>
   fst (getGoogleProjectId (sampleWorld\<lparr>projectsResult := Inl (External ''gcloud failed'')\<rparr>)
          (start sampleFlags)) = Inl (External ''gcloud failed'') \<and>
   fst (Run (sampleWorld\<lparr>projectsResult := Inl (External ''gcloud failed'')\<rparr>) (start sampleFlags)) =
     Some (External ''gcloud failed'')"
proof -
  have ask: "askOneInput nameValidator (inputTyped sampleWorld) (inputAbort sampleWorld) = Inr ''svc-account''"
    and ask': "askOneInput nameValidator
                 (inputTyped (sampleWorld\<lparr>projectsResult := Inl (External ''gcloud failed'')\<rparr>))
                 (inputAbort (sampleWorld\<lparr>projectsResult := Inl (External ''gcloud failed'')\<rparr>)) =
               Inr ''svc-account''"
    by (simp_all add: sample_defs)
  have res: "fst (getGoogleProjectId sampleWorld (start sampleFlags)) = Inr ''only-proj''"
    by (simp add: getGoogleProjectId_def emit_def sample_defs)
  have res': "fst (getGoogleProjectId (sampleWorld\<lparr>projectsResult := Inl (External ''gcloud failed'')\<rparr>)
                (start sampleFlags)) = Inl (External ''gcloud failed'')"
    by (simp add: getGoogleProjectId_def emit_def sample_defs)
  have flags: "Project sampleFlags = []" "SkipLogin sampleFlags"
    "Project (sampleFlags\<lparr>Project := ''my-gke-project''\<rparr>) \<noteq> []"
    by (simp_all add: sampleFlags_def)
  from Run_project_flag [of "sampleFlags\<lparr>Project := ''my-gke-project''\<rparr>" sampleWorld] flags
  have given: "Project (Flags (snd (Run sampleWorld (start (sampleFlags\<lparr>Project := ''my-gke-project''\<rparr>))))) =
     ''my-gke-project'' \<and>
     filter projectCall (trace (snd (Run sampleWorld (start (sampleFlags\<lparr>Project := ''my-gke-project''\<rparr>))))) = []"
    by (simp add: sampleFlags_def)
  from Run_project_flag [of sampleFlags sampleWorld "start sampleFlags"] flags ask res
  have ok: "EvGetGoogleProjects \<in> set (trace (snd (Run sampleWorld (start sampleFlags)))) \<and>
   Project (Flags (snd (Run sampleWorld (start sampleFlags)))) = ''only-proj'' \<and>
   EvGetOrCreateServiceAccount (Name (Flags (snd (Run sampleWorld (start sampleFlags))))) ''only-proj''
       (homeDir sampleWorld)
     \<in> set (trace (snd (Run sampleWorld (start sampleFlags))))"
    by simp
  from Run_project_flag [of sampleFlags "sampleWorld\<lparr>projectsResult := Inl (External ''gcloud failed'')\<rparr>"
      "start sampleFlags"] flags ask' res'
  have err: "fst (Run (sampleWorld\<lparr>projectsResult := Inl (External ''gcloud failed'')\<rparr>) (start sampleFlags)) =
     Some (External ''gcloud failed'')"
    by simp
  from flags ask res res' given ok err show ?thesis by simp
qed

end
